theory Spec2Isabelle
  imports Main "HOL-Library.Word"
begin

unbundle bit_operations_syntax

section \<open>The lazily resolved Crc class of examples/resolve.cpp\<close>

text \<open>
  The example exposes a class \<open>Crc\<close> to scripts. Its C++ side is the class \<open>Crc\<close> with one
  field, the running checksum \<open>m_crc\<close>, and a set of static hooks that the engine calls:
  the constructor, the natives \<open>update\<close> and \<open>getChecksum\<close>, and the class operations
  \<open>newEnumerate\<close>, \<open>resolve\<close>, \<open>mayResolve\<close> and \<open>finalize\<close>.

  The embedding follows the C++ text. A hook that returns \<open>bool\<close> and reports its error on
  the context returns here the flag together with the context after the call; a \<open>bool*\<close> or
  vector out-parameter is passed in and returned. The result is wrapped in \<open>option\<close>, and
  \<open>None\<close> stands for undefined behaviour of the C++ (reading the private slot of an object
  that has none, using a \<open>Crc*\<close> that was deleted).

  Integer widths are those of an LP64 platform: \<open>unsigned\<close> has 32 bits, \<open>unsigned long\<close>
  and \<open>size_t\<close> have 64.
\<close>

subsection \<open>Values, objects and the context\<close>

type_synonym byte = "8 word"
type_synonym ulong = "64 word"
type_synonym uint32_t = "32 word"

text \<open>References into the script heap, and addresses of \<open>Crc\<close> objects on the C++ free store.\<close>

type_synonym objref = nat
type_synonym crcptr = nat

text \<open>
  A \<open>JS::Value\<close>. The only numbers this program makes are \<open>uint32_t\<close> values, which a
  script number holds exactly, so a number is kept as its integer value.
\<close>

datatype jsvalue =
    UndefinedValue
  | NullValue
  | BooleanValue bool
  | NumberValue int
  | StringValue string
  | ObjectValue objref

text \<open>A property key (\<open>jsid\<close>): a string, an integer index or a symbol.\<close>

datatype jsid = JSID_STRING string | JSID_INT int | JSID_SYMBOL nat

text \<open>The two native functions of the class, as \<open>resolve\<close> hands them to the engine.\<close>

datatype native = Crc_update | Crc_getChecksum

text \<open>
  What a property definition records: \<open>JS_DefineFunctionById\<close> stores the native, its
  arity and the attributes; \<open>JS_DefinePropertyById\<close> stores the getter, the setter
  (\<open>None\<close> for \<open>nullptr\<close>) and the attributes.
\<close>

datatype property =
    FunctionProperty native nat nat
  | AccessorProperty "native option" "native option" nat

definition JSPROP_ENUMERATE :: nat where
  "JSPROP_ENUMERATE = 1"

text \<open>
  An object of the script heap. An object of class \<open>Crc::klass\<close>
  (\<open>JSCLASS_HAS_PRIVATE\<close>) has a private slot, \<open>None\<close> for \<open>nullptr\<close>, and the
  properties defined on it so far. A \<open>Uint8Array\<close> has its bytes. Every other object is
  \<open>OtherObject\<close>.
\<close>

datatype jsobject =
    CrcObject "crcptr option" "jsid \<Rightarrow> property option"
  | Uint8ArrayObject "byte list"
  | OtherObject

text \<open>The C++ class: \<open>unsigned long m_crc\<close>.\<close>

record Crc =
  m_crc :: ulong

text \<open>
  The engine calls whose failure the hooks test for. Whether such a call fails (out of
  memory, or an error of the engine's own) is not decided by this program: the context
  carries it as \<open>fails\<close>.
\<close>

datatype engine_call =
    NewObjectForConstructor
  | DefineFunctionById jsid
  | DefinePropertyById jsid
  | VectorAppend jsid
  | InitClass

datatype errnum =
    JSMSG_CANT_CALL_CLASS_CONSTRUCTOR
  | JSMSG_MORE_ARGS_NEEDED string nat

text \<open>
  The pending exception of a context: a message reported with \<open>JS_ReportErrorASCII\<close>, a
  numbered engine message, or the error of a failed engine call.
\<close>

datatype js_error =
    ErrorASCII string
  | ErrorNumber errnum
  | EngineError engine_call

text \<open>
  The state the hooks work on: the script heap (a reference is an index), the C++ free
  store holding the \<open>Crc\<close> objects (an address is an index, \<open>None\<close> a deleted object),
  the pending exception, and which engine calls fail.
\<close>

record JSContext =
  objects :: "jsobject list"
  crcs :: "Crc option list"
  pending :: "js_error option"
  fails :: "engine_call \<Rightarrow> bool"

text \<open>
  \<open>JS::CallArgs\<close>: whether the call is a construction, the object
  \<open>args.computeThis(cx).toObject()\<close> yields, the arguments, and the return slot
  \<open>args.rval()\<close>.
\<close>

record CallArgs =
  isConstructing :: bool
  thisobj :: objref
  argv :: "jsvalue list"
  rval :: jsvalue

definition lookup :: "'a list \<Rightarrow> nat \<Rightarrow> 'a option" where
  "lookup xs i = (if i < length xs then Some (xs ! i) else None)"

definition UINT_MAX :: nat where
  "UINT_MAX = 4294967295"

subsection \<open>The engine interface the hooks use\<close>

text \<open>
  The functions of this subsection are the engine's, not the example's. Each is given
  the meaning the hooks rely on: what it reads from or writes to the context, and, for
  the calls whose result the hooks test, the failure the context prescribes.

  \<open>JS_GetPrivate\<close> and \<open>JS_SetPrivate\<close> are defined on objects with a private slot only.
\<close>

definition JS_GetPrivate :: "JSContext \<Rightarrow> objref \<Rightarrow> crcptr option option" where
  "JS_GetPrivate cx obj =
     (case lookup (objects cx) obj of
        Some (CrcObject p ps) \<Rightarrow> Some p
      | _ \<Rightarrow> None)"

definition JS_SetPrivate :: "JSContext \<Rightarrow> objref \<Rightarrow> crcptr option \<Rightarrow> JSContext option" where
  "JS_SetPrivate cx obj p =
     (case lookup (objects cx) obj of
        Some (CrcObject q ps) \<Rightarrow> Some (cx\<lparr>objects := (objects cx)[obj := CrcObject p ps]\<rparr>)
      | _ \<Rightarrow> None)"

definition JS_ReportErrorASCII :: "JSContext \<Rightarrow> string \<Rightarrow> JSContext" where
  "JS_ReportErrorASCII cx msg = cx\<lparr>pending := Some (ErrorASCII msg)\<rparr>"

definition JS_ReportErrorNumberASCII :: "JSContext \<Rightarrow> errnum \<Rightarrow> JSContext" where
  "JS_ReportErrorNumberASCII cx n = cx\<lparr>pending := Some (ErrorNumber n)\<rparr>"

text \<open>A failed engine call leaves its own error pending.\<close>

definition engine_failure :: "JSContext \<Rightarrow> engine_call \<Rightarrow> JSContext" where
  "engine_failure cx c = cx\<lparr>pending := Some (EngineError c)\<rparr>"

text \<open>
  \<open>args.requireAtLeast(cx, fnname, required)\<close>: reports \<open>JSMSG_MORE_ARGS_NEEDED\<close> when
  fewer arguments were passed.
\<close>

definition requireAtLeast :: "JSContext \<Rightarrow> CallArgs \<Rightarrow> string \<Rightarrow> nat \<Rightarrow> bool \<times> JSContext" where
  "requireAtLeast cx args fnname required =
     (if length (argv args) < required
      then (False, JS_ReportErrorNumberASCII cx (JSMSG_MORE_ARGS_NEEDED fnname required))
      else (True, cx))"

fun isObject :: "jsvalue \<Rightarrow> bool" where
  "isObject (ObjectValue r) = True"
| "isObject v = False"

fun toObject :: "jsvalue \<Rightarrow> objref option" where
  "toObject (ObjectValue r) = Some r"
| "toObject v = None"

text \<open>A reference that is to no object of the heap is not a \<open>Uint8Array\<close>.\<close>

definition JS_IsUint8Array :: "JSContext \<Rightarrow> objref \<Rightarrow> bool" where
  "JS_IsUint8Array cx obj =
     (case lookup (objects cx) obj of
        Some (Uint8ArrayObject bs) \<Rightarrow> True
      | _ \<Rightarrow> False)"

text \<open>
  \<open>JS_GetTypedArrayLength\<close> and \<open>JS_GetUint8ArrayData\<close>, defined on typed arrays only.
  The length is the \<open>size_t\<close> the source stores it in; no wrap-around is written out for
  it, since an array that exists has fewer than \<open>2 ^ 64\<close> bytes.
\<close>

definition JS_GetTypedArrayLength :: "JSContext \<Rightarrow> objref \<Rightarrow> nat option" where
  "JS_GetTypedArrayLength cx obj =
     (case lookup (objects cx) obj of
        Some (Uint8ArrayObject bs) \<Rightarrow> Some (length bs)
      | _ \<Rightarrow> None)"

definition JS_GetUint8ArrayData :: "JSContext \<Rightarrow> objref \<Rightarrow> byte list option" where
  "JS_GetUint8ArrayData cx obj =
     (case lookup (objects cx) obj of
        Some (Uint8ArrayObject bs) \<Rightarrow> Some bs
      | _ \<Rightarrow> None)"

text \<open>
  \<open>JS_NewObjectForConstructor(cx, &Crc::klass, args)\<close>: a new object of the class, its
  private slot empty, or no object when the engine fails.
\<close>

definition JS_NewObjectForConstructor :: "JSContext \<Rightarrow> objref option \<times> JSContext" where
  "JS_NewObjectForConstructor cx =
     (if fails cx NewObjectForConstructor
      then (None, engine_failure cx NewObjectForConstructor)
      else (Some (length (objects cx)),
            cx\<lparr>objects := objects cx @ [CrcObject None Map.empty]\<rparr>))"

text \<open>
  \<open>JS_DefineFunctionById\<close> and \<open>JS_DefinePropertyById\<close> on an object of the class. Only
  these objects keep their properties in this model.
\<close>

definition define_property :: "JSContext \<Rightarrow> objref \<Rightarrow> jsid \<Rightarrow> property \<Rightarrow> JSContext option" where
  "define_property cx obj ident p =
     (case lookup (objects cx) obj of
        Some (CrcObject q ps) \<Rightarrow>
          Some (cx\<lparr>objects := (objects cx)[obj := CrcObject q (ps(ident \<mapsto> p))]\<rparr>)
      | _ \<Rightarrow> None)"

definition JS_DefineFunctionById ::
  "JSContext \<Rightarrow> objref \<Rightarrow> jsid \<Rightarrow> native \<Rightarrow> nat \<Rightarrow> nat \<Rightarrow> (bool \<times> JSContext) option" where
  "JS_DefineFunctionById cx obj ident call nargs attrs =
     (if fails cx (DefineFunctionById ident)
      then Some (False, engine_failure cx (DefineFunctionById ident))
      else map_option (Pair True)
             (define_property cx obj ident (FunctionProperty call nargs attrs)))"

definition JS_DefinePropertyById ::
  "JSContext \<Rightarrow> objref \<Rightarrow> jsid \<Rightarrow> native option \<Rightarrow> native option \<Rightarrow> nat \<Rightarrow>
     (bool \<times> JSContext) option" where
  "JS_DefinePropertyById cx obj ident getter setter attrs =
     (if fails cx (DefinePropertyById ident)
      then Some (False, engine_failure cx (DefinePropertyById ident))
      else map_option (Pair True)
             (define_property cx obj ident (AccessorProperty getter setter attrs)))"

text \<open>\<open>properties.append(id)\<close> on the \<open>JS::AutoIdVector\<close>.\<close>

definition append_id :: "JSContext \<Rightarrow> jsid list \<Rightarrow> jsid \<Rightarrow> bool \<times> jsid list \<times> JSContext" where
  "append_id cx properties ident =
     (if fails cx (VectorAppend ident)
      then (False, properties, engine_failure cx (VectorAppend ident))
      else (True, properties @ [ident], cx))"

fun JSID_IS_STRING :: "jsid \<Rightarrow> bool" where
  "JSID_IS_STRING (JSID_STRING s) = True"
| "JSID_IS_STRING i = False"

fun JSID_TO_FLAT_STRING :: "jsid \<Rightarrow> string option" where
  "JSID_TO_FLAT_STRING (JSID_STRING s) = Some s"
| "JSID_TO_FLAT_STRING i = None"

definition JS_FlatStringEqualsAscii :: "string \<Rightarrow> string \<Rightarrow> bool" where
  "JS_FlatStringEqualsAscii str asciiBytes = (str = asciiBytes)"

text \<open>\<open>INTERNED_STRING_TO_JSID(cx, JS_AtomizeAndPinString(cx, s))\<close>.\<close>

definition INTERNED_STRING_TO_JSID :: "string \<Rightarrow> jsid" where
  "INTERNED_STRING_TO_JSID s = JSID_STRING s"

text \<open>
  \<open>JS_InitClass\<close> as \<open>DefinePrototype\<close> calls it: the prototype object of the class, or no
  object when the engine fails.
\<close>

definition JS_InitClass :: "JSContext \<Rightarrow> objref option \<times> JSContext" where
  "JS_InitClass cx =
     (if fails cx InitClass
      then (None, engine_failure cx InitClass)
      else (Some (length (objects cx)),
            cx\<lparr>objects := objects cx @ [CrcObject None Map.empty]\<rparr>))"

subsection \<open>The class \<open>Crc\<close>\<close>

text \<open>
  \<open>zlib::crc32(crc, buf, len)\<close> belongs to zlib, not to this program, so the hooks take it
  as the parameter \<open>crc32\<close>. Its buffer argument is \<open>None\<close> for \<open>nullptr\<close> and otherwise
  the bytes at the pointer, of which the function reads the first \<open>len\<close>.
\<close>

type_synonym crc32_fn = "ulong \<Rightarrow> byte list option \<Rightarrow> nat \<Rightarrow> ulong"

text \<open>
  \<open>new Crc()\<close> runs the constructor \<open>m_crc(zlib::crc32(0L, nullptr, 0))\<close> on a fresh
  address; \<open>delete priv\<close> is defined for a live object only.
\<close>

definition new_Crc :: "crc32_fn \<Rightarrow> JSContext \<Rightarrow> crcptr \<times> JSContext" where
  "new_Crc crc32 cx =
     (length (crcs cx), cx\<lparr>crcs := crcs cx @ [Some \<lparr>m_crc = crc32 0 None 0\<rparr>]\<rparr>)"

definition delete_Crc :: "JSContext \<Rightarrow> crcptr \<Rightarrow> JSContext option" where
  "delete_Crc cx p =
     (case lookup (crcs cx) p of
        Some (Some c) \<Rightarrow> Some (cx\<lparr>crcs := (crcs cx)[p := None]\<rparr>)
      | _ \<Rightarrow> None)"

definition updateImpl ::
  "crc32_fn \<Rightarrow> JSContext \<Rightarrow> crcptr \<Rightarrow> CallArgs \<Rightarrow> (bool \<times> CallArgs \<times> JSContext) option" where
  "updateImpl crc32 cx this args =
     (case requireAtLeast cx args ''update'' 1 of
        (False, cx1) \<Rightarrow> Some (False, args, cx1)
      | (True, cx1) \<Rightarrow>
          if \<not> isObject (argv args ! 0) \<or>
             \<not> (case toObject (argv args ! 0) of
                  Some b \<Rightarrow> JS_IsUint8Array cx1 b
                | None \<Rightarrow> False)
          then Some (False, args,
                 JS_ReportErrorASCII cx1 ''argument to update() should be a Uint8Array'')
          else
            (case toObject (argv args ! 0) of
               None \<Rightarrow> None
             | Some buffer \<Rightarrow>
                 (case JS_GetTypedArrayLength cx1 buffer of
                    None \<Rightarrow> None
                  | Some len \<Rightarrow>
                      if len > UINT_MAX
                      then Some (False, args, JS_ReportErrorASCII cx1 ''array has too many bytes'')
                      else
                        (case JS_GetUint8ArrayData cx1 buffer of
                           None \<Rightarrow> None
                         | Some data \<Rightarrow>
                             (case lookup (crcs cx1) this of
                                Some (Some c) \<Rightarrow>
                                  Some (True, args\<lparr>rval := UndefinedValue\<rparr>,
                                    cx1\<lparr>crcs := (crcs cx1)
                                      [this := Some (c\<lparr>m_crc :=
                                         crc32 (m_crc c) (Some data) (len mod 2 ^ 32)\<rparr>)]\<rparr>)
                              | _ \<Rightarrow> None)))))"

definition getChecksumImpl ::
  "JSContext \<Rightarrow> crcptr \<Rightarrow> CallArgs \<Rightarrow> (bool \<times> CallArgs \<times> JSContext) option" where
  "getChecksumImpl cx this args =
     (case lookup (crcs cx) this of
        Some (Some c) \<Rightarrow>
          Some (True, args\<lparr>rval := NumberValue (uint (ucast (m_crc c) :: uint32_t))\<rparr>, cx)
      | _ \<Rightarrow> None)"

definition getPriv :: "JSContext \<Rightarrow> objref \<Rightarrow> crcptr option option" where
  "getPriv cx obj = JS_GetPrivate cx obj"

definition isPrototype :: "JSContext \<Rightarrow> objref \<Rightarrow> bool option" where
  "isPrototype cx obj = map_option (\<lambda>p. p = None) (getPriv cx obj)"

definition checkIsInstance :: "JSContext \<Rightarrow> objref \<Rightarrow> string \<Rightarrow> (bool \<times> JSContext) option" where
  "checkIsInstance cx obj what =
     (case isPrototype cx obj of
        None \<Rightarrow> None
      | Some True \<Rightarrow>
          Some (False, JS_ReportErrorASCII cx (''can't '' @ what @ '' on Crc.prototype''))
      | Some False \<Rightarrow> Some (True, cx))"

definition constructor ::
  "crc32_fn \<Rightarrow> JSContext \<Rightarrow> CallArgs \<Rightarrow> (bool \<times> CallArgs \<times> JSContext) option" where
  "constructor crc32 cx args =
     (if \<not> isConstructing args
      then Some (False, args, JS_ReportErrorNumberASCII cx JSMSG_CANT_CALL_CLASS_CONSTRUCTOR)
      else
        (case JS_NewObjectForConstructor cx of
           (None, cx1) \<Rightarrow> Some (False, args, cx1)
         | (Some newObj, cx1) \<Rightarrow>
             (case new_Crc crc32 cx1 of
                (priv, cx2) \<Rightarrow>
                  (case JS_SetPrivate cx2 newObj (Some priv) of
                     None \<Rightarrow> None
                   | Some cx3 \<Rightarrow> Some (True, args\<lparr>rval := ObjectValue newObj\<rparr>, cx3)))))"

definition update ::
  "crc32_fn \<Rightarrow> JSContext \<Rightarrow> CallArgs \<Rightarrow> (bool \<times> CallArgs \<times> JSContext) option" where
  "update crc32 cx args =
     (case checkIsInstance cx (thisobj args) ''call update()'' of
        None \<Rightarrow> None
      | Some (False, cx1) \<Rightarrow> Some (False, args, cx1)
      | Some (True, cx1) \<Rightarrow>
          (case getPriv cx1 (thisobj args) of
             Some (Some this) \<Rightarrow> updateImpl crc32 cx1 this args
           | _ \<Rightarrow> None))"

definition getChecksum :: "JSContext \<Rightarrow> CallArgs \<Rightarrow> (bool \<times> CallArgs \<times> JSContext) option" where
  "getChecksum cx args =
     (case checkIsInstance cx (thisobj args) ''read checksum'' of
        None \<Rightarrow> None
      | Some (False, cx1) \<Rightarrow> Some (False, args, cx1)
      | Some (True, cx1) \<Rightarrow>
          (case getPriv cx1 (thisobj args) of
             Some (Some this) \<Rightarrow> getChecksumImpl cx1 this args
           | _ \<Rightarrow> None))"

text \<open>
  \<open>newEnumerate\<close> is given the vector \<open>properties\<close> and returns it as the call left it.
\<close>

definition newEnumerate ::
  "JSContext \<Rightarrow> objref \<Rightarrow> jsid list \<Rightarrow> bool \<Rightarrow> (bool \<times> jsid list \<times> JSContext) option" where
  "newEnumerate cx obj properties enumerableOnly =
     (case isPrototype cx obj of
        None \<Rightarrow> None
      | Some False \<Rightarrow> Some (True, properties, cx)
      | Some True \<Rightarrow>
          (case append_id cx properties (INTERNED_STRING_TO_JSID ''update'') of
             (False, ps1, cx1) \<Rightarrow> Some (False, ps1, cx1)
           | (True, ps1, cx1) \<Rightarrow>
               (case append_id cx1 ps1 (INTERNED_STRING_TO_JSID ''checksum'') of
                  (False, ps2, cx2) \<Rightarrow> Some (False, ps2, cx2)
                | (True, ps2, cx2) \<Rightarrow> Some (True, ps2, cx2))))"

text \<open>
  \<open>resolve\<close> is given what \<open>*resolved\<close> holds before the call and returns what it holds
  after it: the two paths that return \<open>false\<close> do not write it.
\<close>

definition resolve ::
  "JSContext \<Rightarrow> objref \<Rightarrow> jsid \<Rightarrow> bool \<Rightarrow> (bool \<times> bool \<times> JSContext) option" where
  "resolve cx obj ident resolved =
     (case isPrototype cx obj of
        None \<Rightarrow> None
      | Some False \<Rightarrow> Some (True, False, cx)
      | Some True \<Rightarrow>
          if \<not> JSID_IS_STRING ident then Some (True, False, cx)
          else
            (case JSID_TO_FLAT_STRING ident of
               None \<Rightarrow> None
             | Some str \<Rightarrow>
                 if JS_FlatStringEqualsAscii str ''update'' then
                   (case JS_DefineFunctionById cx obj ident Crc_update 1 JSPROP_ENUMERATE of
                      None \<Rightarrow> None
                    | Some (False, cx1) \<Rightarrow> Some (False, resolved, cx1)
                    | Some (True, cx1) \<Rightarrow> Some (True, True, cx1))
                 else if JS_FlatStringEqualsAscii str ''checksum'' then
                   (case JS_DefinePropertyById cx obj ident (Some Crc_getChecksum) None
                           JSPROP_ENUMERATE of
                      None \<Rightarrow> None
                    | Some (False, cx1) \<Rightarrow> Some (False, resolved, cx1)
                    | Some (True, cx1) \<Rightarrow> Some (True, True, cx1))
                 else Some (True, False, cx)))"

definition mayResolve :: "jsid \<Rightarrow> bool" where
  "mayResolve ident =
     (if \<not> JSID_IS_STRING ident then False
      else
        (case JSID_TO_FLAT_STRING ident of
           None \<Rightarrow> False
         | Some str \<Rightarrow>
             JS_FlatStringEqualsAscii str ''update'' \<or>
             JS_FlatStringEqualsAscii str ''checksum''))"

definition finalize :: "JSContext \<Rightarrow> objref \<Rightarrow> JSContext option" where
  "finalize cx obj =
     (case getPriv cx obj of
        None \<Rightarrow> None
      | Some None \<Rightarrow> Some cx
      | Some (Some priv) \<Rightarrow>
          (case delete_Crc cx priv of
             None \<Rightarrow> None
           | Some cx1 \<Rightarrow> JS_SetPrivate cx1 obj None))"

definition DefinePrototype :: "JSContext \<Rightarrow> (bool \<times> JSContext) option" where
  "DefinePrototype cx =
     (case JS_InitClass cx of
        (None, cx1) \<Rightarrow> Some (False, cx1)
      | (Some proto, cx1) \<Rightarrow> map_option (Pair True) (JS_SetPrivate cx1 proto None))"

subsection \<open>Running the hooks as the test program does\<close>

text \<open>
  The test program of the example is
  \<open>const crc = new Crc(); crc.update(new Uint8Array([1, 2, 3, 4, 5])); crc.checksum;\<close>.
  \<open>checksum_script\<close> runs the same calls on the hooks, for a list of buffers that are in
  the heap already: the construction, one \<open>update\<close> per buffer, and the read of
  \<open>checksum\<close>. A call that returns \<open>false\<close> ends the script with the pending exception
  (\<open>Inl\<close>); otherwise the script yields what the read left in its return slot (\<open>Inr\<close>).
\<close>

definition construct_call :: CallArgs where
  "construct_call = \<lparr>isConstructing = True, thisobj = 0, argv = [], rval = UndefinedValue\<rparr>"

definition method_call :: "objref \<Rightarrow> jsvalue list \<Rightarrow> CallArgs" where
  "method_call obj as =
     \<lparr>isConstructing = False, thisobj = obj, argv = as, rval = UndefinedValue\<rparr>"

fun updates ::
  "crc32_fn \<Rightarrow> JSContext \<Rightarrow> objref \<Rightarrow> objref list \<Rightarrow> (bool \<times> JSContext) option" where
  "updates crc32 cx obj [] = Some (True, cx)"
| "updates crc32 cx obj (b # bs) =
     (case update crc32 cx (method_call obj [ObjectValue b]) of
        None \<Rightarrow> None
      | Some (False, a, cx1) \<Rightarrow> Some (False, cx1)
      | Some (True, a, cx1) \<Rightarrow> updates crc32 cx1 obj bs)"

definition checksum_script ::
  "crc32_fn \<Rightarrow> JSContext \<Rightarrow> objref list \<Rightarrow> (js_error option + jsvalue) option" where
  "checksum_script crc32 cx bufs =
     (case constructor crc32 cx construct_call of
        None \<Rightarrow> None
      | Some (False, a, cx1) \<Rightarrow> Some (Inl (pending cx1))
      | Some (True, a, cx1) \<Rightarrow>
          (case toObject (rval a) of
             None \<Rightarrow> None
           | Some crc \<Rightarrow>
               (case updates crc32 cx1 crc bufs of
                  None \<Rightarrow> None
                | Some (False, cx2) \<Rightarrow> Some (Inl (pending cx2))
                | Some (True, cx2) \<Rightarrow>
                    (case getChecksum cx2 (method_call crc []) of
                       None \<Rightarrow> None
                     | Some (False, a2, cx3) \<Rightarrow> Some (Inl (pending cx3))
                     | Some (True, a2, cx3) \<Rightarrow> Some (Inr (rval a2))))))"

subsection \<open>A checksum function and contexts to run the hooks on\<close>

text \<open>
  The theorems below hold for every function \<open>crc32\<close>. To run the hooks on concrete
  inputs one function is needed: \<open>crc32_reference\<close> is the bit-by-bit CRC-32 (reflected
  polynomial \<open>0xEDB88320\<close>, the running value complemented on entry and on exit), which
  gives the required initial value \<open>0\<close> for a null buffer. It is not part of the
  repository and stands for zlib only where a theorem is evaluated at an input.
\<close>

definition crc32_bit :: "ulong \<Rightarrow> ulong" where
  "crc32_bit c = (if c AND 1 = 1 then drop_bit 1 c XOR 0xEDB88320 else drop_bit 1 c)"

definition crc32_byte :: "byte \<Rightarrow> ulong \<Rightarrow> ulong" where
  "crc32_byte b c = (crc32_bit ^^ 8) (c XOR ucast b)"

definition crc32_reference :: crc32_fn where
  "crc32_reference crc buf len =
     (case buf of
        None \<Rightarrow> 0
      | Some bs \<Rightarrow> fold crc32_byte (take len bs) (crc XOR 0xFFFFFFFF) XOR 0xFFFFFFFF)"

text \<open>
  \<open>cx_demo\<close>: the prototype (object 0), an instance whose checksum is still the initial
  value (object 1, its \<open>Crc\<close> at address 0), three byte arrays (objects 2, 4 and 5; the
  first is the other two joined) and an object of another class (object 3). No engine
  call fails.
\<close>

definition cx_demo :: JSContext where
  "cx_demo =
     \<lparr>objects = [CrcObject None Map.empty, CrcObject (Some 0) Map.empty,
                 Uint8ArrayObject [1, 2, 3, 4, 5], OtherObject, Uint8ArrayObject [1, 2],
                 Uint8ArrayObject [3, 4, 5]],
      crcs = [Some \<lparr>m_crc = 0\<rparr>],
      pending = None,
      fails = (\<lambda>c. False)\<rparr>"

text \<open>
  \<open>cx_large\<close>: an array of one byte (object 0), an array of \<open>2 ^ 32 - 1\<close> bytes
  (object 1), the two joined, \<open>2 ^ 32\<close> bytes (object 2), and an instance (object 3).
\<close>

definition cx_large :: JSContext where
  "cx_large =
     \<lparr>objects = [Uint8ArrayObject [0], Uint8ArrayObject (replicate 4294967295 0),
                 Uint8ArrayObject ([0] @ replicate 4294967295 0),
                 CrcObject (Some 0) Map.empty],
      crcs = [Some \<lparr>m_crc = 0\<rparr>],
      pending = None,
      fails = (\<lambda>c. False)\<rparr>"

text \<open>\<open>cx_failing c\<close>: \<open>cx_demo\<close> with an engine in which exactly the call \<open>c\<close> fails.\<close>

definition only_fails :: "engine_call \<Rightarrow> engine_call \<Rightarrow> bool" where
  "only_fails c x = (x = c)"

definition cx_failing :: "engine_call \<Rightarrow> JSContext" where
  "cx_failing c = cx_demo\<lparr>fails := only_fails c\<rparr>"

section \<open>Properties\<close>

subsection \<open>Auxiliary facts\<close>

lemma lookup_append_old: "lookup xs i = Some x \<Longrightarrow> lookup (xs @ ys) i = Some x"
  by (auto simp: lookup_def nth_append split: if_splits)

lemma lookup_append_new: "lookup (xs @ [y]) (length xs) = Some y"
  by (simp add: lookup_def)

lemma lookup_update_same: "lookup xs i = Some x \<Longrightarrow> lookup (xs[i := y]) i = Some y"
  by (auto simp: lookup_def split: if_splits)

lemma lookup_length: "lookup xs (length xs) = None"
  by (simp add: lookup_def)

lemma getPriv_lookup:
  "lookup (objects cx) obj = Some (CrcObject p ps) \<Longrightarrow> getPriv cx obj = Some p"
  by (simp add: getPriv_def JS_GetPrivate_def)

text \<open>The four exits of \<open>update\<close> on an instance whose \<open>Crc\<close> is live.\<close>

lemma update_on_instance:
  "getPriv cx (thisobj args) = Some (Some p) \<Longrightarrow> update crc32 cx args = updateImpl crc32 cx p args"
  by (simp add: update_def checkIsInstance_def isPrototype_def)

lemma update_no_argument:
  assumes "getPriv cx (thisobj args) = Some (Some p)" and "argv args = []"
  shows "update crc32 cx args =
      Some (False, args,
        cx\<lparr>pending := Some (ErrorNumber (JSMSG_MORE_ARGS_NEEDED ''update'' 1))\<rparr>)"
  using assms
  by (simp add: update_on_instance updateImpl_def requireAtLeast_def
      JS_ReportErrorNumberASCII_def)

lemma update_not_Uint8Array:
  assumes "getPriv cx (thisobj args) = Some (Some p)" and "argv args = v # vs"
    and "\<forall>b bs. v = ObjectValue b \<longrightarrow> lookup (objects cx) b \<noteq> Some (Uint8ArrayObject bs)"
  shows "update crc32 cx args =
      Some (False, args,
        cx\<lparr>pending := Some (ErrorASCII ''argument to update() should be a Uint8Array'')\<rparr>)"
  using assms
  by (cases v)
    (auto simp: update_on_instance updateImpl_def requireAtLeast_def JS_ReportErrorASCII_def
      JS_IsUint8Array_def split: option.splits jsobject.splits)

lemma update_too_many_bytes:
  assumes "getPriv cx (thisobj args) = Some (Some p)" and "argv args = ObjectValue b # vs"
    and "lookup (objects cx) b = Some (Uint8ArrayObject bs)" and "UINT_MAX < length bs"
  shows "update crc32 cx args =
      Some (False, args, cx\<lparr>pending := Some (ErrorASCII ''array has too many bytes'')\<rparr>)"
  using assms
  by (simp add: update_on_instance updateImpl_def requireAtLeast_def JS_ReportErrorASCII_def
      JS_IsUint8Array_def JS_GetTypedArrayLength_def)

lemma update_folds:
  assumes "getPriv cx (thisobj args) = Some (Some p)" and "lookup (crcs cx) p = Some (Some c)"
    and "argv args = ObjectValue b # vs"
    and "lookup (objects cx) b = Some (Uint8ArrayObject bs)" and "length bs \<le> UINT_MAX"
  shows "update crc32 cx args =
      Some (True, args\<lparr>rval := UndefinedValue\<rparr>,
        cx\<lparr>crcs := (crcs cx)
          [p := Some (c\<lparr>m_crc := crc32 (m_crc c) (Some bs) (length bs)\<rparr>)]\<rparr>)"
proof -
  have "length bs mod 2 ^ 32 = length bs"
    using assms(5) by (simp add: UINT_MAX_def)
  with assms show ?thesis
    by (simp add: update_on_instance updateImpl_def requireAtLeast_def JS_IsUint8Array_def
        JS_GetTypedArrayLength_def JS_GetUint8ArrayData_def)
qed

lemma update_on_prototype:
  assumes "getPriv cx (thisobj args) = Some None"
  shows "update crc32 cx args =
      Some (False, args,
        cx\<lparr>pending := Some (ErrorASCII ''can't call update() on Crc.prototype'')\<rparr>)"
  using assms
  by (simp add: update_def checkIsInstance_def isPrototype_def JS_ReportErrorASCII_def)

lemma getChecksum_on_prototype:
  assumes "getPriv cx (thisobj args) = Some None"
  shows "getChecksum cx args =
      Some (False, args,
        cx\<lparr>pending := Some (ErrorASCII ''can't read checksum on Crc.prototype'')\<rparr>)"
  using assms
  by (simp add: getChecksum_def checkIsInstance_def isPrototype_def JS_ReportErrorASCII_def)

lemma getChecksum_read:
  assumes "getPriv cx (thisobj args) = Some (Some p)" and "lookup (crcs cx) p = Some (Some c)"
  shows "getChecksum cx args =
      Some (True, args\<lparr>rval := NumberValue (uint (ucast (m_crc c) :: uint32_t))\<rparr>, cx)"
  using assms
  by (simp add: getChecksum_def checkIsInstance_def isPrototype_def getChecksumImpl_def)

lemma constructor_plain_call:
  assumes "\<not> isConstructing args"
  shows "constructor crc32 cx args =
      Some (False, args, cx\<lparr>pending := Some (ErrorNumber JSMSG_CANT_CALL_CLASS_CONSTRUCTOR)\<rparr>)"
  using assms by (simp add: constructor_def JS_ReportErrorNumberASCII_def)

lemma constructor_new:
  assumes "isConstructing args" and "\<not> fails cx NewObjectForConstructor"
  shows "constructor crc32 cx args =
      Some (True, args\<lparr>rval := ObjectValue (length (objects cx))\<rparr>,
        cx\<lparr>objects := objects cx @ [CrcObject (Some (length (crcs cx))) Map.empty],
           crcs := crcs cx @ [Some \<lparr>m_crc = crc32 0 None 0\<rparr>]\<rparr>)"
  using assms
  by (simp add: constructor_def JS_NewObjectForConstructor_def new_Crc_def JS_SetPrivate_def
      lookup_def)

lemma constructor_engine_failure:
  assumes "isConstructing args" and "fails cx NewObjectForConstructor"
  shows "constructor crc32 cx args =
      Some (False, args, cx\<lparr>pending := Some (EngineError NewObjectForConstructor)\<rparr>)"
  using assms
  by (simp add: constructor_def JS_NewObjectForConstructor_def engine_failure_def)

text \<open>
  The script: a run of accepted updates folds the buffers into the checksum one after
  the other.
\<close>

lemma updates_fold:
  assumes "lookup (objects cx) obj = Some (CrcObject (Some p) ps)"
    and "lookup (crcs cx) p = Some (Some c)"
    and "list_all2 (\<lambda>b bs. lookup (objects cx) b = Some (Uint8ArrayObject bs) \<and>
            length bs \<le> UINT_MAX) bufs bss"
  shows "updates crc32 cx obj bufs =
      Some (True, cx\<lparr>crcs := (crcs cx)
        [p := Some (c\<lparr>m_crc := fold (\<lambda>bs a. crc32 a (Some bs) (length bs)) bss (m_crc c)\<rparr>)]\<rparr>)"
  using assms
proof (induction bufs arbitrary: bss cx c)
  case Nil
  then have "(crcs cx)[p := Some c] = crcs cx"
    by (auto simp: lookup_def list_update_same_conv split: if_splits)
  with Nil show ?case by simp
next
  case (Cons b bufs)
  then obtain bs bss' where bss: "bss = bs # bss'"
    and b: "lookup (objects cx) b = Some (Uint8ArrayObject bs)" "length bs \<le> UINT_MAX"
    and rest: "list_all2 (\<lambda>b bs. lookup (objects cx) b = Some (Uint8ArrayObject bs) \<and>
            length bs \<le> UINT_MAX) bufs bss'"
    by (auto simp: list_all2_Cons1)
  let ?c1 = "c\<lparr>m_crc := crc32 (m_crc c) (Some bs) (length bs)\<rparr>"
  let ?cx1 = "cx\<lparr>crcs := (crcs cx)[p := Some ?c1]\<rparr>"
  have step: "update crc32 cx (method_call obj [ObjectValue b]) =
      Some (True, (method_call obj [ObjectValue b])\<lparr>rval := UndefinedValue\<rparr>, ?cx1)"
    using Cons.prems(1,2) b
    by (intro update_folds) (simp_all add: method_call_def getPriv_lookup)
  have "updates crc32 ?cx1 obj bufs =
      Some (True, ?cx1\<lparr>crcs := (crcs ?cx1)
        [p := Some (?c1\<lparr>m_crc :=
           fold (\<lambda>bs a. crc32 a (Some bs) (length bs)) bss' (m_crc ?c1)\<rparr>)]\<rparr>)"
    using Cons.prems(1,2) rest
    by (intro Cons.IH) (simp_all add: lookup_update_same)
  with step bss show ?case by simp
qed

lemma script_ok:
  assumes ok: "\<not> fails cx NewObjectForConstructor"
    and bufs: "list_all2 (\<lambda>b bs. lookup (objects cx) b = Some (Uint8ArrayObject bs) \<and>
            length bs \<le> UINT_MAX) bufs bss"
  shows "checksum_script crc32 cx bufs =
      Some (Inr (NumberValue (uint (ucast
        (fold (\<lambda>bs a. crc32 a (Some bs) (length bs)) bss (crc32 0 None 0)) :: uint32_t))))"
proof -
  let ?n = "length (objects cx)" and ?p = "length (crcs cx)"
  let ?c = "\<lparr>m_crc = crc32 0 None 0\<rparr>"
  let ?cx1 = "cx\<lparr>objects := objects cx @ [CrcObject (Some ?p) Map.empty],
               crcs := crcs cx @ [Some ?c]\<rparr>"
  let ?c2 = "?c\<lparr>m_crc := fold (\<lambda>bs a. crc32 a (Some bs) (length bs)) bss (m_crc ?c)\<rparr>"
  let ?cx2 = "?cx1\<lparr>crcs := (crcs ?cx1)[?p := Some ?c2]\<rparr>"
  have con: "constructor crc32 cx construct_call =
      Some (True, construct_call\<lparr>rval := ObjectValue ?n\<rparr>, ?cx1)"
    using ok by (intro constructor_new) (simp_all add: construct_call_def)
  have obj: "lookup (objects ?cx1) ?n = Some (CrcObject (Some ?p) Map.empty)"
    by (simp add: lookup_append_new)
  have crc: "lookup (crcs ?cx1) ?p = Some (Some ?c)"
    by (simp add: lookup_append_new)
  have bufs1: "list_all2 (\<lambda>b bs. lookup (objects ?cx1) b = Some (Uint8ArrayObject bs) \<and>
            length bs \<le> UINT_MAX) bufs bss"
    using bufs by (rule list_all2_mono) (simp add: lookup_append_old)
  have upd: "updates crc32 ?cx1 ?n bufs = Some (True, ?cx2)"
    using obj crc bufs1 by (rule updates_fold)
  have crc2: "lookup (crcs ?cx2) ?p = Some (Some ?c2)"
    by (simp add: lookup_def)
  have priv2: "getPriv ?cx2 (thisobj (method_call ?n [])) = Some (Some ?p)"
    by (simp add: method_call_def getPriv_def JS_GetPrivate_def lookup_def)
  have rd: "getChecksum ?cx2 (method_call ?n []) =
      Some (True, (method_call ?n [])\<lparr>rval :=
        NumberValue (uint (ucast (m_crc ?c2) :: uint32_t))\<rparr>, ?cx2)"
    using priv2 crc2 by (rule getChecksum_read)
  show ?thesis
    unfolding checksum_script_def con using upd rd by simp
qed

lemma script_construct_failure:
  assumes "fails cx NewObjectForConstructor"
  shows "checksum_script crc32 cx bufs = Some (Inl (Some (EngineError NewObjectForConstructor)))"
  using assms
  by (simp add: checksum_script_def construct_call_def constructor_engine_failure)

lemma script_too_many_bytes:
  assumes ok: "\<not> fails cx NewObjectForConstructor"
    and buf: "lookup (objects cx) b = Some (Uint8ArrayObject bs)" and long: "UINT_MAX < length bs"
  shows "checksum_script crc32 cx [b] = Some (Inl (Some (ErrorASCII ''array has too many bytes'')))"
proof -
  let ?n = "length (objects cx)" and ?p = "length (crcs cx)"
  let ?cx1 = "cx\<lparr>objects := objects cx @ [CrcObject (Some ?p) Map.empty],
               crcs := crcs cx @ [Some \<lparr>m_crc = crc32 0 None 0\<rparr>]\<rparr>"
  have con: "constructor crc32 cx construct_call =
      Some (True, construct_call\<lparr>rval := ObjectValue ?n\<rparr>, ?cx1)"
    using ok by (intro constructor_new) (simp_all add: construct_call_def)
  have priv: "getPriv ?cx1 (thisobj (method_call ?n [ObjectValue b])) = Some (Some ?p)"
    by (simp add: method_call_def getPriv_def JS_GetPrivate_def lookup_def)
  have arg: "argv (method_call ?n [ObjectValue b]) = ObjectValue b # []"
    by (simp add: method_call_def)
  have buf1: "lookup (objects ?cx1) b = Some (Uint8ArrayObject bs)"
    using buf by (simp add: lookup_append_old)
  have "update crc32 ?cx1 (method_call ?n [ObjectValue b]) =
      Some (False, method_call ?n [ObjectValue b],
        ?cx1\<lparr>pending := Some (ErrorASCII ''array has too many bytes'')\<rparr>)"
    using priv arg buf1 long by (rule update_too_many_bytes)
  then show ?thesis
    unfolding checksum_script_def con by simp
qed

text \<open>The reference checksum: folding two buffers in turn is folding the joined buffer.\<close>

lemma crc32_reference_append:
  "crc32_reference (crc32_reference c (Some xs) (length xs)) (Some ys) (length ys) =
   crc32_reference c (Some (xs @ ys)) (length (xs @ ys))"
  by (simp add: crc32_reference_def xor.assoc)

lemma crc32_reference_initial: "crc32_reference 0 None 0 = 0"
  by (simp add: crc32_reference_def)

lemma funpow_8: "(f ^^ 8) x = f (f (f (f (f (f (f (f x)))))))"
  by (simp add: eval_nat_numeral)

lemma crc32_reference_12345: "crc32_reference 0 (Some [1, 2, 3, 4, 5]) 5 = 0x470B99F4"
  by (simp add: crc32_reference_def crc32_byte_def crc32_bit_def funpow_8)

text \<open>The example contexts.\<close>

lemma cx_demo_prototype: "getPriv cx_demo 0 = Some None"
  by (simp add: cx_demo_def getPriv_def JS_GetPrivate_def lookup_def)

lemma cx_demo_instance: "getPriv cx_demo 1 = Some (Some 0)"
  by (simp add: cx_demo_def getPriv_def JS_GetPrivate_def lookup_def)

lemma cx_demo_crc: "lookup (crcs cx_demo) 0 = Some (Some \<lparr>m_crc = 0\<rparr>)"
  by (simp add: cx_demo_def lookup_def)

lemma cx_demo_arrays:
  "lookup (objects cx_demo) 2 = Some (Uint8ArrayObject [1, 2, 3, 4, 5])"
  "lookup (objects cx_demo) 4 = Some (Uint8ArrayObject [1, 2])"
  "lookup (objects cx_demo) 5 = Some (Uint8ArrayObject [3, 4, 5])"
  "lookup (objects cx_demo) 3 = Some OtherObject"
  by (simp_all add: cx_demo_def lookup_def)

lemma cx_demo_no_failure: "\<not> fails cx_demo c"
  by (simp add: cx_demo_def)

lemma cx_large_arrays:
  "lookup (objects cx_large) 0 = Some (Uint8ArrayObject [0])"
  "lookup (objects cx_large) 1 = Some (Uint8ArrayObject (replicate 4294967295 0))"
  "lookup (objects cx_large) 2 = Some (Uint8ArrayObject ([0] @ replicate 4294967295 0))"
  by (simp_all add: cx_large_def lookup_def)

lemma cx_large_instance: "getPriv cx_large 3 = Some (Some 0)"
  by (simp add: cx_large_def getPriv_def JS_GetPrivate_def lookup_def)

lemma cx_large_crc: "lookup (crcs cx_large) 0 = Some (Some \<lparr>m_crc = 0\<rparr>)"
  by (simp add: cx_large_def lookup_def)

lemma cx_large_no_failure: "\<not> fails cx_large c"
  by (simp add: cx_large_def)

lemma cx_failing_prototype: "getPriv (cx_failing c) 0 = Some None"
  by (simp add: cx_failing_def cx_demo_def getPriv_def JS_GetPrivate_def lookup_def)

lemma cx_failing_fails: "fails (cx_failing c) x = (x = c)"
  by (simp add: cx_failing_def only_fails_def)

lemma cx_demo_sizes: "length (objects cx_demo) = 6" "length (crcs cx_demo) = 1"
  by (simp_all add: cx_demo_def)

lemma cx_demo_crcs_update:
  "cx_demo\<lparr>crcs := (crcs cx_demo)[0 := Some (\<lparr>m_crc = 0\<rparr>\<lparr>m_crc := x\<rparr>)]\<rparr> =
   cx_demo\<lparr>crcs := [Some \<lparr>m_crc = x\<rparr>]\<rparr>"
  by (simp add: cx_demo_def)

lemma cx_failing_object:
  "lookup (objects (cx_failing c)) 0 = Some (CrcObject None Map.empty)"
  by (simp add: cx_failing_def cx_demo_def lookup_def)

lemma cx_demo_objects:
  "lookup (objects cx_demo) 0 = Some (CrcObject None Map.empty)"
  "lookup (objects cx_demo) 1 = Some (CrcObject (Some 0) Map.empty)"
  by (simp_all add: cx_demo_def lookup_def)

lemma crc32_reference_12345_length:
  "crc32_reference 0 (Some [1, 2, 3, 4, 5]) (length [1 :: byte, 2, 3, 4, 5]) = 0x470B99F4"
proof -
  have "length [1 :: byte, 2, 3, 4, 5] = 5" by simp
  then show ?thesis by (simp only: crc32_reference_12345)
qed

subsection \<open>Instance-only operations on the prototype\<close>

text \<open>
  Claim C1. On an object of the class that is the prototype (its private slot is
  \<open>nullptr\<close>, so it has no \<open>Crc\<close> attached), calling \<open>update\<close> and reading \<open>checksum\<close>
  both return \<open>false\<close> with the error \<open>can't ... on Crc.prototype\<close> pending. The context
  after the call differs from the one before in the pending exception only: the free
  store, and with it the checksum of every instance, is as it was.
\<close>

theorem prototype_usage_error:
  assumes "getPriv cx (thisobj args) = Some None"
  shows "update crc32 cx args =
           Some (False, args,
             cx\<lparr>pending := Some (ErrorASCII ''can't call update() on Crc.prototype'')\<rparr>) \<and>
         getChecksum cx args =
           Some (False, args,
             cx\<lparr>pending := Some (ErrorASCII ''can't read checksum on Crc.prototype'')\<rparr>) \<and>
         map_option (\<lambda>r. crcs (snd (snd r))) (update crc32 cx args) = Some (crcs cx) \<and>
         map_option (\<lambda>r. crcs (snd (snd r))) (getChecksum cx args) = Some (crcs cx)"
  using assms by (simp add: update_on_prototype getChecksum_on_prototype)

theorem prototype_usage_error_witness:
  "getPriv cx_demo (thisobj (method_call 0 [ObjectValue 2])) = Some None \<and>
   update crc32_reference cx_demo (method_call 0 [ObjectValue 2]) =
     Some (False, method_call 0 [ObjectValue 2],
       cx_demo\<lparr>pending := Some (ErrorASCII ''can't call update() on Crc.prototype'')\<rparr>) \<and>
   getChecksum cx_demo (method_call 0 [ObjectValue 2]) =
     Some (False, method_call 0 [ObjectValue 2],
       cx_demo\<lparr>pending := Some (ErrorASCII ''can't read checksum on Crc.prototype'')\<rparr>)"
proof -
  have h: "getPriv cx_demo (thisobj (method_call 0 [ObjectValue 2])) = Some None"
    by (simp add: method_call_def cx_demo_prototype)
  from prototype_usage_error [OF h, of crc32_reference] h show ?thesis
    by simp
qed

subsection \<open>Incremental and one-shot folding\<close>

text \<open>
  Claim C2, as amended. Let \<open>crc32\<close> fold two buffers in turn as it folds the joined
  buffer. For byte sequences \<open>b1\<close> and \<open>b2\<close> whose lengths add up to at most
  \<open>UINT_MAX\<close>, the script that constructs an instance, updates it with \<open>b1\<close> and then
  with \<open>b2\<close> and reads the checksum ends as the script that constructs an instance,
  updates it once with the joined sequence and reads the checksum; where the
  construction succeeds, both yield the checksum of the joined sequence as a number.
\<close>

theorem incremental_equals_one_shot:
  assumes comp: "\<forall>c xs ys. crc32 (crc32 c (Some xs) (length xs)) (Some ys) (length ys) =
                   crc32 c (Some (xs @ ys)) (length (xs @ ys))"
    and a1: "lookup (objects cx) a1 = Some (Uint8ArrayObject b1)"
    and a2: "lookup (objects cx) a2 = Some (Uint8ArrayObject b2)"
    and a12: "lookup (objects cx) a12 = Some (Uint8ArrayObject (b1 @ b2))"
    and len: "length b1 + length b2 \<le> UINT_MAX"
  shows "checksum_script crc32 cx [a1, a2] = checksum_script crc32 cx [a12] \<and>
     (\<not> fails cx NewObjectForConstructor \<longrightarrow>
        checksum_script crc32 cx [a12] =
          Some (Inr (NumberValue (uint (ucast
            (crc32 (crc32 0 None 0) (Some (b1 @ b2)) (length (b1 @ b2))) :: uint32_t)))))"
proof (cases "fails cx NewObjectForConstructor")
  case True
  then show ?thesis by (simp add: script_construct_failure)
next
  case False
  have two: "list_all2 (\<lambda>b bs. lookup (objects cx) b = Some (Uint8ArrayObject bs) \<and>
            length bs \<le> UINT_MAX) [a1, a2] [b1, b2]"
    using a1 a2 len by simp
  have one: "list_all2 (\<lambda>b bs. lookup (objects cx) b = Some (Uint8ArrayObject bs) \<and>
            length bs \<le> UINT_MAX) [a12] [b1 @ b2]"
    using a12 len by simp
  show ?thesis
    using comp by (simp add: script_ok [OF False two] script_ok [OF False one])
qed

text \<open>
  At \<open>cx_demo\<close>, with the reference checksum: the arrays \<open>[1, 2]\<close> and \<open>[3, 4, 5]\<close> in
  turn, and \<open>[1, 2, 3, 4, 5]\<close> at once, both give \<open>0x470B99F4\<close>.
\<close>

theorem incremental_equals_one_shot_witness:
  "lookup (objects cx_demo) 4 = Some (Uint8ArrayObject [1, 2]) \<and>
   lookup (objects cx_demo) 5 = Some (Uint8ArrayObject [3, 4, 5]) \<and>
   lookup (objects cx_demo) 2 = Some (Uint8ArrayObject ([1, 2] @ [3, 4, 5])) \<and>
   length [1 :: byte, 2] + length [3 :: byte, 4, 5] \<le> UINT_MAX \<and>
   \<not> fails cx_demo NewObjectForConstructor \<and>
   checksum_script crc32_reference cx_demo [4, 5] = checksum_script crc32_reference cx_demo [2] \<and>
   checksum_script crc32_reference cx_demo [2] = Some (Inr (NumberValue 0x470B99F4))"
proof -
  have comp: "\<forall>c xs ys.
      crc32_reference (crc32_reference c (Some xs) (length xs)) (Some ys) (length ys) =
      crc32_reference c (Some (xs @ ys)) (length (xs @ ys))"
    by (simp add: crc32_reference_append)
  have a12: "lookup (objects cx_demo) 2 = Some (Uint8ArrayObject ([1, 2] @ [3, 4, 5]))"
    by (simp add: cx_demo_arrays)
  have len: "length [1 :: byte, 2] + length [3 :: byte, 4, 5] \<le> UINT_MAX"
    by (simp add: UINT_MAX_def)
  have ap: "[1 :: byte, 2] @ [3, 4, 5] = [1, 2, 3, 4, 5]"
    and l5: "length [1 :: byte, 2, 3, 4, 5] = 5"
    by simp_all
  have val: "crc32_reference (crc32_reference 0 None 0) (Some ([1, 2] @ [3, 4, 5]))
      (length ([1 :: byte, 2] @ [3, 4, 5])) = 0x470B99F4"
    unfolding ap l5 crc32_reference_initial by (rule crc32_reference_12345)
  from incremental_equals_one_shot [OF comp cx_demo_arrays(2) cx_demo_arrays(3) a12 len]
  have "checksum_script crc32_reference cx_demo [4, 5] =
        checksum_script crc32_reference cx_demo [2]"
    and "checksum_script crc32_reference cx_demo [2] = Some (Inr (NumberValue 0x470B99F4))"
    unfolding val by (simp_all add: cx_demo_no_failure)
  with a12 len show ?thesis
    by (simp add: cx_demo_arrays cx_demo_no_failure)
qed

text \<open>
  The claim as stated, for all byte sequences, fails at \<open>cx_large\<close>: an array of one
  byte and an array of \<open>2 ^ 32 - 1\<close> bytes are each accepted, and the script that folds
  them in turn yields a number; the joined array has \<open>2 ^ 32\<close> bytes, and the script
  that folds it at once ends with the error \<open>array has too many bytes\<close>. The reference
  checksum meets the assumption on \<open>crc32\<close> (\<open>crc32_reference_append\<close>).
\<close>

theorem incremental_one_shot_counterexample:
  "lookup (objects cx_large) 0 = Some (Uint8ArrayObject [0]) \<and>
   lookup (objects cx_large) 1 = Some (Uint8ArrayObject (replicate 4294967295 0)) \<and>
   lookup (objects cx_large) 2 = Some (Uint8ArrayObject ([0] @ replicate 4294967295 0)) \<and>
   checksum_script crc32_reference cx_large [0, 1] =
     Some (Inr (NumberValue (uint (ucast
       (crc32_reference (crc32_reference (crc32_reference 0 None 0) (Some [0]) 1)
          (Some (replicate 4294967295 0)) 4294967295) :: uint32_t)))) \<and>
   checksum_script crc32_reference cx_large [2] =
     Some (Inl (Some (ErrorASCII ''array has too many bytes''))) \<and>
   checksum_script crc32_reference cx_large [0, 1] \<noteq> checksum_script crc32_reference cx_large [2]"
proof -
  have two: "list_all2 (\<lambda>b bs. lookup (objects cx_large) b = Some (Uint8ArrayObject bs) \<and>
            length bs \<le> UINT_MAX) [0, 1] [[0], replicate 4294967295 0]"
    using cx_large_arrays(1,2) by (simp add: UINT_MAX_def)
  have long: "UINT_MAX < length ([0 :: byte] @ replicate 4294967295 0)"
    by (simp add: UINT_MAX_def)
  have r2: "checksum_script crc32_reference cx_large [0, 1] =
     Some (Inr (NumberValue (uint (ucast
       (crc32_reference (crc32_reference (crc32_reference 0 None 0) (Some [0]) 1)
          (Some (replicate 4294967295 0)) 4294967295) :: uint32_t))))"
    using script_ok [OF cx_large_no_failure two, of crc32_reference] by simp
  have r1: "checksum_script crc32_reference cx_large [2] =
     Some (Inl (Some (ErrorASCII ''array has too many bytes'')))"
    using cx_large_no_failure cx_large_arrays(3) long by (rule script_too_many_bytes)
  show ?thesis
    unfolding r1 r2 using cx_large_arrays by simp
qed

subsection \<open>The error exits of \<open>update\<close>\<close>

text \<open>
  Claim C3, as amended. On an instance whose \<open>Crc\<close> is live, \<open>update\<close> requires at least
  one argument, and its first argument must be a \<open>Uint8Array\<close> of at most \<open>UINT_MAX\<close>
  bytes; arguments after the first are ignored. It returns \<open>false\<close>, with an error
  pending, in exactly three cases: no argument (\<open>JSMSG_MORE_ARGS_NEEDED\<close>), a first
  argument that is not a \<open>Uint8Array\<close>, and a first argument of more than \<open>UINT_MAX\<close>
  bytes. In the one remaining case it returns \<open>true\<close>, sets the return slot to
  \<open>undefined\<close>, folds the bytes into the checksum and leaves the pending exception as
  it was.
\<close>

theorem update_error_cases:
  assumes inst: "getPriv cx (thisobj args) = Some (Some p)"
    and live: "lookup (crcs cx) p = Some (Some c)"
  shows
    "(argv args = [] \<longrightarrow>
        update crc32 cx args =
          Some (False, args,
            cx\<lparr>pending := Some (ErrorNumber (JSMSG_MORE_ARGS_NEEDED ''update'' 1))\<rparr>)) \<and>
     (argv args = v # vs \<and>
        (\<forall>b bs. v = ObjectValue b \<longrightarrow> lookup (objects cx) b \<noteq> Some (Uint8ArrayObject bs)) \<longrightarrow>
        update crc32 cx args =
          Some (False, args,
            cx\<lparr>pending :=
              Some (ErrorASCII ''argument to update() should be a Uint8Array'')\<rparr>)) \<and>
     (argv args = ObjectValue b # ws \<and>
        lookup (objects cx) b = Some (Uint8ArrayObject bs) \<and> UINT_MAX < length bs \<longrightarrow>
        update crc32 cx args =
          Some (False, args, cx\<lparr>pending := Some (ErrorASCII ''array has too many bytes'')\<rparr>)) \<and>
     (argv args = ObjectValue b # ws \<and>
        lookup (objects cx) b = Some (Uint8ArrayObject bs) \<and> length bs \<le> UINT_MAX \<longrightarrow>
        update crc32 cx args =
          Some (True, args\<lparr>rval := UndefinedValue\<rparr>,
            cx\<lparr>crcs := (crcs cx)
              [p := Some (c\<lparr>m_crc := crc32 (m_crc c) (Some bs) (length bs)\<rparr>)]\<rparr>))"
  using update_no_argument [OF inst, of crc32]
    update_not_Uint8Array [OF inst, of v vs crc32]
    update_too_many_bytes [OF inst, of b ws bs crc32]
    update_folds [OF inst live, of b ws bs crc32]
  by blast

text \<open>
  On the instance of \<open>cx_demo\<close>: no argument; an object of another class; the five
  bytes of object 2. On the instance of \<open>cx_large\<close>: the array of \<open>2 ^ 32\<close> bytes.
\<close>

theorem update_error_cases_witness:
  "getPriv cx_demo (thisobj (method_call 1 [])) = Some (Some 0) \<and>
   lookup (crcs cx_demo) 0 = Some (Some \<lparr>m_crc = 0\<rparr>) \<and>
   update crc32_reference cx_demo (method_call 1 []) =
     Some (False, method_call 1 [],
       cx_demo\<lparr>pending := Some (ErrorNumber (JSMSG_MORE_ARGS_NEEDED ''update'' 1))\<rparr>) \<and>
   lookup (objects cx_demo) 3 = Some OtherObject \<and>
   update crc32_reference cx_demo (method_call 1 [ObjectValue 3]) =
     Some (False, method_call 1 [ObjectValue 3],
       cx_demo\<lparr>pending :=
         Some (ErrorASCII ''argument to update() should be a Uint8Array'')\<rparr>) \<and>
   lookup (objects cx_demo) 2 = Some (Uint8ArrayObject [1, 2, 3, 4, 5]) \<and>
   update crc32_reference cx_demo (method_call 1 [ObjectValue 2]) =
     Some (True, (method_call 1 [ObjectValue 2])\<lparr>rval := UndefinedValue\<rparr>,
       cx_demo\<lparr>crcs := [Some \<lparr>m_crc = 0x470B99F4\<rparr>]\<rparr>) \<and>
   getPriv cx_large (thisobj (method_call 3 [ObjectValue 2])) = Some (Some 0) \<and>
   lookup (objects cx_large) 2 = Some (Uint8ArrayObject ([0] @ replicate 4294967295 0)) \<and>
   UINT_MAX < length ([0 :: byte] @ replicate 4294967295 0) \<and>
   update crc32_reference cx_large (method_call 3 [ObjectValue 2]) =
     Some (False, method_call 3 [ObjectValue 2],
       cx_large\<lparr>pending := Some (ErrorASCII ''array has too many bytes'')\<rparr>)"
proof -
  have inst: "getPriv cx_demo (thisobj (method_call 1 as)) = Some (Some 0)" for as
    using cx_demo_instance by (simp add: method_call_def)
  have inst': "getPriv cx_large (thisobj (method_call 3 as)) = Some (Some 0)" for as
    by (simp add: method_call_def cx_large_instance)
  have arg: "argv (method_call obj as) = as" for obj as
    by (simp add: method_call_def)
  have long: "UINT_MAX < length ([0 :: byte] @ replicate 4294967295 0)"
    by (simp add: UINT_MAX_def)
  have short: "length [1 :: byte, 2, 3, 4, 5] \<le> UINT_MAX"
    by (simp add: UINT_MAX_def)
  have other: "\<forall>b bs. ObjectValue 3 = ObjectValue b \<longrightarrow>
      lookup (objects cx_demo) b \<noteq> Some (Uint8ArrayObject bs)"
    by (simp add: cx_demo_arrays)
  have r1: "update crc32_reference cx_demo (method_call 1 []) =
     Some (False, method_call 1 [],
       cx_demo\<lparr>pending := Some (ErrorNumber (JSMSG_MORE_ARGS_NEEDED ''update'' 1))\<rparr>)"
    using update_error_cases [OF inst [of "[]"] cx_demo_crc, where ?crc32.0 = crc32_reference] arg
    by blast
  have r2: "update crc32_reference cx_demo (method_call 1 [ObjectValue 3]) =
     Some (False, method_call 1 [ObjectValue 3],
       cx_demo\<lparr>pending :=
         Some (ErrorASCII ''argument to update() should be a Uint8Array'')\<rparr>)"
    using update_error_cases [OF inst [of "[ObjectValue 3]"] cx_demo_crc,
        where ?crc32.0 = crc32_reference and v = "ObjectValue 3" and vs = "[]"] arg other
    by blast
  have r3: "update crc32_reference cx_demo (method_call 1 [ObjectValue 2]) =
     Some (True, (method_call 1 [ObjectValue 2])\<lparr>rval := UndefinedValue\<rparr>,
       cx_demo\<lparr>crcs := (crcs cx_demo)[0 := Some (\<lparr>m_crc = 0\<rparr>\<lparr>m_crc :=
         crc32_reference (m_crc \<lparr>m_crc = 0\<rparr>) (Some [1, 2, 3, 4, 5])
           (length [1 :: byte, 2, 3, 4, 5])\<rparr>)]\<rparr>)"
    using update_error_cases [OF inst [of "[ObjectValue 2]"] cx_demo_crc,
        where ?crc32.0 = crc32_reference and b = 2 and ws = "[]" and bs = "[1, 2, 3, 4, 5]"]
      arg cx_demo_arrays(1) short
    by blast
  have r3': "update crc32_reference cx_demo (method_call 1 [ObjectValue 2]) =
     Some (True, (method_call 1 [ObjectValue 2])\<lparr>rval := UndefinedValue\<rparr>,
       cx_demo\<lparr>crcs := [Some \<lparr>m_crc = 0x470B99F4\<rparr>]\<rparr>)"
    using r3 unfolding cx_demo_crcs_update by (simp only: Crc.simps crc32_reference_12345_length)
  have r4: "update crc32_reference cx_large (method_call 3 [ObjectValue 2]) =
     Some (False, method_call 3 [ObjectValue 2],
       cx_large\<lparr>pending := Some (ErrorASCII ''array has too many bytes'')\<rparr>)"
    using update_error_cases [OF inst' [of "[ObjectValue 2]"] cx_large_crc,
        where ?crc32.0 = crc32_reference and b = 2 and ws = "[]"
          and bs = "[0] @ replicate 4294967295 0"]
      arg cx_large_arrays(3) long
    by blast
  show ?thesis
    using inst inst' cx_demo_crc cx_demo_arrays(1,4) cx_large_arrays(3) long r1 r2 r3' r4
    by blast
qed

text \<open>
  The claim as stated requires exactly one argument. The code asks for at least one
  (\<open>requireAtLeast\<close>): called with the array and one more argument, \<open>update\<close> returns
  \<open>true\<close> and folds the array.
\<close>

theorem update_extra_argument_counterexample:
  "getPriv cx_demo (thisobj (method_call 1 [ObjectValue 2, NumberValue 7])) = Some (Some 0) \<and>
   lookup (crcs cx_demo) 0 = Some (Some \<lparr>m_crc = 0\<rparr>) \<and>
   length (argv (method_call 1 [ObjectValue 2, NumberValue 7])) = 2 \<and>
   update crc32_reference cx_demo (method_call 1 [ObjectValue 2, NumberValue 7]) =
     Some (True, (method_call 1 [ObjectValue 2, NumberValue 7])\<lparr>rval := UndefinedValue\<rparr>,
       cx_demo\<lparr>crcs := [Some \<lparr>m_crc = 0x470B99F4\<rparr>]\<rparr>)"
proof -
  let ?args = "method_call 1 [ObjectValue 2, NumberValue 7]"
  have inst: "getPriv cx_demo (thisobj ?args) = Some (Some 0)"
    using cx_demo_instance by (simp add: method_call_def)
  have arg: "argv ?args = ObjectValue 2 # [NumberValue 7]"
    by (simp add: method_call_def)
  have short: "length [1 :: byte, 2, 3, 4, 5] \<le> UINT_MAX"
    by (simp add: UINT_MAX_def)
  have "update crc32_reference cx_demo ?args =
     Some (True, ?args\<lparr>rval := UndefinedValue\<rparr>,
       cx_demo\<lparr>crcs := (crcs cx_demo)[0 := Some (\<lparr>m_crc = 0\<rparr>\<lparr>m_crc :=
         crc32_reference (m_crc \<lparr>m_crc = 0\<rparr>) (Some [1, 2, 3, 4, 5])
           (length [1 :: byte, 2, 3, 4, 5])\<rparr>)]\<rparr>)"
    using inst cx_demo_crc arg cx_demo_arrays(1) short by (rule update_folds)
  then have "update crc32_reference cx_demo ?args =
     Some (True, ?args\<lparr>rval := UndefinedValue\<rparr>,
       cx_demo\<lparr>crcs := [Some \<lparr>m_crc = 0x470B99F4\<rparr>]\<rparr>)"
    unfolding cx_demo_crcs_update by (simp only: Crc.simps crc32_reference_12345_length)
  moreover have "length (argv ?args) = 2"
    by (simp add: method_call_def)
  ultimately show ?thesis
    using inst cx_demo_crc by blast
qed

subsection \<open>The checksum of a fresh instance\<close>

text \<open>
  Claim C4. For an instance that the constructor has just made, the read of \<open>checksum\<close>
  returns the value the \<open>Crc\<close> was initialised with, \<open>crc32(0, nullptr, 0)\<close> as a
  \<open>uint32_t\<close>, and returns the context unchanged. With the initial value \<open>0\<close> that
  zlib documents for a null buffer, the read returns \<open>0\<close>.
\<close>

theorem fresh_checksum_is_identity:
  assumes "constructor crc32 cx args = Some (True, a, cx1)"
    and "rval a = ObjectValue obj" and "thisobj args2 = obj"
  shows "getChecksum cx1 args2 =
           Some (True,
             args2\<lparr>rval := NumberValue (uint (ucast (crc32 0 None 0) :: uint32_t))\<rparr>, cx1) \<and>
         (crc32 0 None 0 = 0 \<longrightarrow>
            getChecksum cx1 args2 = Some (True, args2\<lparr>rval := NumberValue 0\<rparr>, cx1))"
proof -
  have c: "isConstructing args" "\<not> fails cx NewObjectForConstructor"
    using assms(1)
    by (auto simp: constructor_def JS_NewObjectForConstructor_def split: if_splits)
  let ?p = "length (crcs cx)"
  from assms(1,2) constructor_new [OF c, of crc32]
  have cx1: "cx1 = cx\<lparr>objects := objects cx @ [CrcObject (Some ?p) Map.empty],
           crcs := crcs cx @ [Some \<lparr>m_crc = crc32 0 None 0\<rparr>]\<rparr>"
    and obj: "obj = length (objects cx)"
    by auto
  have priv: "getPriv cx1 (thisobj args2) = Some (Some ?p)"
    by (simp add: cx1 obj assms(3) getPriv_def JS_GetPrivate_def lookup_def)
  have crc: "lookup (crcs cx1) ?p = Some (Some \<lparr>m_crc = crc32 0 None 0\<rparr>)"
    by (simp add: cx1 lookup_append_new)
  from getChecksum_read [OF priv crc] show ?thesis by auto
qed

theorem fresh_checksum_is_identity_witness:
  "constructor crc32_reference cx_demo construct_call =
     Some (True, construct_call\<lparr>rval := ObjectValue 6\<rparr>,
       cx_demo\<lparr>objects := objects cx_demo @ [CrcObject (Some 1) Map.empty],
               crcs := crcs cx_demo @ [Some \<lparr>m_crc = 0\<rparr>]\<rparr>) \<and>
   rval (construct_call\<lparr>rval := ObjectValue 6\<rparr>) = ObjectValue 6 \<and>
   thisobj (method_call 6 []) = 6 \<and>
   crc32_reference 0 None 0 = 0 \<and>
   getChecksum
     (cx_demo\<lparr>objects := objects cx_demo @ [CrcObject (Some 1) Map.empty],
             crcs := crcs cx_demo @ [Some \<lparr>m_crc = 0\<rparr>]\<rparr>)
     (method_call 6 []) =
     Some (True, (method_call 6 [])\<lparr>rval := NumberValue 0\<rparr>,
       cx_demo\<lparr>objects := objects cx_demo @ [CrcObject (Some 1) Map.empty],
               crcs := crcs cx_demo @ [Some \<lparr>m_crc = 0\<rparr>]\<rparr>)"
proof -
  let ?cx1 = "cx_demo\<lparr>objects := objects cx_demo @ [CrcObject (Some 1) Map.empty],
               crcs := crcs cx_demo @ [Some \<lparr>m_crc = 0\<rparr>]\<rparr>"
  have con: "constructor crc32_reference cx_demo construct_call =
     Some (True, construct_call\<lparr>rval := ObjectValue 6\<rparr>, ?cx1)"
    using constructor_new [of construct_call cx_demo crc32_reference]
    unfolding cx_demo_sizes crc32_reference_initial
    by (simp add: construct_call_def cx_demo_no_failure)
  have r: "rval (construct_call\<lparr>rval := ObjectValue 6\<rparr>) = ObjectValue 6"
    and t: "thisobj (method_call 6 []) = 6"
    by (simp_all add: method_call_def)
  from fresh_checksum_is_identity [OF con r t] crc32_reference_initial con r t
  show ?thesis by blast
qed

subsection \<open>The constructor\<close>

text \<open>
  Claim C5, as amended. Called as a plain function, the constructor returns \<open>false\<close>
  with \<open>JSMSG_CANT_CALL_CLASS_CONSTRUCTOR\<close> pending. Called as a construction, and
  provided the engine makes the new object, it returns \<open>true\<close> with a new object in the
  return slot: an object that was not in the heap, whose private slot holds a \<open>Crc\<close>
  that was not on the free store, initialised with \<open>crc32(0, nullptr, 0)\<close>. When the
  engine fails to make the object, the constructor returns \<open>false\<close> with the engine's
  error pending and allocates no \<open>Crc\<close>.
\<close>

theorem constructor_cases:
  "(\<not> isConstructing args \<longrightarrow>
      constructor crc32 cx args =
        Some (False, args,
          cx\<lparr>pending := Some (ErrorNumber JSMSG_CANT_CALL_CLASS_CONSTRUCTOR)\<rparr>)) \<and>
   (isConstructing args \<and> \<not> fails cx NewObjectForConstructor \<longrightarrow>
      constructor crc32 cx args =
        Some (True, args\<lparr>rval := ObjectValue (length (objects cx))\<rparr>,
          cx\<lparr>objects := objects cx @ [CrcObject (Some (length (crcs cx))) Map.empty],
             crcs := crcs cx @ [Some \<lparr>m_crc = crc32 0 None 0\<rparr>]\<rparr>) \<and>
      lookup (objects cx) (length (objects cx)) = None \<and>
      lookup (crcs cx) (length (crcs cx)) = None) \<and>
   (isConstructing args \<and> fails cx NewObjectForConstructor \<longrightarrow>
      constructor crc32 cx args =
        Some (False, args, cx\<lparr>pending := Some (EngineError NewObjectForConstructor)\<rparr>))"
  using constructor_plain_call [of args crc32 cx] constructor_new [of args cx crc32]
    constructor_engine_failure [of args cx crc32]
  by (simp add: lookup_length)

theorem constructor_cases_witness:
  "\<not> isConstructing (method_call 0 []) \<and>
   constructor crc32_reference cx_demo (method_call 0 []) =
     Some (False, method_call 0 [],
       cx_demo\<lparr>pending := Some (ErrorNumber JSMSG_CANT_CALL_CLASS_CONSTRUCTOR)\<rparr>) \<and>
   isConstructing construct_call \<and>
   \<not> fails cx_demo NewObjectForConstructor \<and>
   constructor crc32_reference cx_demo construct_call =
     Some (True, construct_call\<lparr>rval := ObjectValue 6\<rparr>,
       cx_demo\<lparr>objects := objects cx_demo @ [CrcObject (Some 1) Map.empty],
               crcs := crcs cx_demo @ [Some \<lparr>m_crc = 0\<rparr>]\<rparr>) \<and>
   fails (cx_failing NewObjectForConstructor) NewObjectForConstructor \<and>
   constructor crc32_reference (cx_failing NewObjectForConstructor) construct_call =
     Some (False, construct_call,
       (cx_failing NewObjectForConstructor)
         \<lparr>pending := Some (EngineError NewObjectForConstructor)\<rparr>)"
proof -
  have p: "\<not> isConstructing (method_call 0 [])" and c: "isConstructing construct_call"
    by (simp_all add: method_call_def construct_call_def)
  have f: "fails (cx_failing NewObjectForConstructor) NewObjectForConstructor"
    by (simp add: cx_failing_fails)
  have r1: "constructor crc32_reference cx_demo (method_call 0 []) =
     Some (False, method_call 0 [],
       cx_demo\<lparr>pending := Some (ErrorNumber JSMSG_CANT_CALL_CLASS_CONSTRUCTOR)\<rparr>)"
    using constructor_cases [of "method_call 0 []" crc32_reference cx_demo] p by blast
  have r2: "constructor crc32_reference cx_demo construct_call =
     Some (True, construct_call\<lparr>rval := ObjectValue 6\<rparr>,
       cx_demo\<lparr>objects := objects cx_demo @ [CrcObject (Some 1) Map.empty],
               crcs := crcs cx_demo @ [Some \<lparr>m_crc = 0\<rparr>]\<rparr>)"
    using constructor_cases [of construct_call crc32_reference cx_demo] c cx_demo_no_failure
    unfolding cx_demo_sizes crc32_reference_initial by blast
  have r3: "constructor crc32_reference (cx_failing NewObjectForConstructor) construct_call =
     Some (False, construct_call,
       (cx_failing NewObjectForConstructor)
         \<lparr>pending := Some (EngineError NewObjectForConstructor)\<rparr>)"
    using constructor_cases
      [of construct_call crc32_reference "cx_failing NewObjectForConstructor"] c f
    by blast
  show ?thesis
    using p c f r1 r2 r3 cx_demo_no_failure by simp
qed

text \<open>
  The claim as stated has every construction call return a new object. Where the engine
  does not make the object, the constructor returns \<open>false\<close> (the source's
  \<open>if (!newObj) return false\<close>): no object is returned and no \<open>Crc\<close> is allocated.
\<close>

theorem constructor_allocation_counterexample:
  "isConstructing construct_call \<and>
   constructor crc32_reference (cx_failing NewObjectForConstructor) construct_call =
     Some (False, construct_call,
       (cx_failing NewObjectForConstructor)
         \<lparr>pending := Some (EngineError NewObjectForConstructor)\<rparr>) \<and>
   crcs ((cx_failing NewObjectForConstructor)
         \<lparr>pending := Some (EngineError NewObjectForConstructor)\<rparr>) = crcs cx_demo"
proof -
  have c: "isConstructing construct_call"
    by (simp add: construct_call_def)
  have f: "fails (cx_failing NewObjectForConstructor) NewObjectForConstructor"
    by (simp add: cx_failing_fails)
  from c f have "constructor crc32_reference (cx_failing NewObjectForConstructor) construct_call =
     Some (False, construct_call,
       (cx_failing NewObjectForConstructor)
         \<lparr>pending := Some (EngineError NewObjectForConstructor)\<rparr>)"
    by (rule constructor_engine_failure)
  with c show ?thesis by (simp add: cx_failing_def)
qed

subsection \<open>The resolve hook\<close>

text \<open>
  Claim C6. On an object of the class, \<open>resolve\<close> returns \<open>true\<close> with \<open>*resolved\<close> set to
  \<open>false\<close> and the context unchanged, so that no property is defined on any object,
  whenever the object is an instance (not the prototype), or the key is not a string,
  or the key is a string other than \<open>update\<close> and \<open>checksum\<close>.
\<close>

theorem resolve_skips:
  assumes "getPriv cx obj = Some priv"
    and "priv \<noteq> None \<or> \<not> JSID_IS_STRING ident \<or>
         (ident \<noteq> JSID_STRING ''update'' \<and> ident \<noteq> JSID_STRING ''checksum'')"
  shows "resolve cx obj ident r = Some (True, False, cx)"
  using assms
  by (cases ident)
    (auto simp: resolve_def isPrototype_def JS_FlatStringEqualsAscii_def split: bool.splits)

text \<open>
  At \<open>cx_demo\<close>: the key \<open>update\<close> on the instance, an integer key on the prototype,
  and the key \<open>digest\<close> on the prototype, each with \<open>*resolved\<close> holding \<open>true\<close> before
  the call.
\<close>

theorem resolve_skips_witness:
  "getPriv cx_demo 1 = Some (Some 0) \<and>
   resolve cx_demo 1 (JSID_STRING ''update'') True = Some (True, False, cx_demo) \<and>
   getPriv cx_demo 0 = Some None \<and>
   \<not> JSID_IS_STRING (JSID_INT 3) \<and>
   resolve cx_demo 0 (JSID_INT 3) True = Some (True, False, cx_demo) \<and>
   JSID_STRING ''digest'' \<noteq> JSID_STRING ''update'' \<and>
   JSID_STRING ''digest'' \<noteq> JSID_STRING ''checksum'' \<and>
   resolve cx_demo 0 (JSID_STRING ''digest'') True = Some (True, False, cx_demo)"
proof -
  have r1: "resolve cx_demo 1 (JSID_STRING ''update'') True = Some (True, False, cx_demo)"
    by (rule resolve_skips [OF cx_demo_instance]) simp
  have r2: "resolve cx_demo 0 (JSID_INT 3) True = Some (True, False, cx_demo)"
    by (rule resolve_skips [OF cx_demo_prototype]) simp
  have r3: "resolve cx_demo 0 (JSID_STRING ''digest'') True = Some (True, False, cx_demo)"
    by (rule resolve_skips [OF cx_demo_prototype]) simp
  show ?thesis
    using r1 r2 r3 cx_demo_instance cx_demo_prototype by simp
qed

text \<open>
  Claim C7, as amended. On the prototype, with the key \<open>update\<close> and provided the
  engine's \<open>JS_DefineFunctionById\<close> succeeds, \<open>resolve\<close> defines on the prototype the
  function property \<open>update\<close> with the native \<open>Crc::update\<close> and arity 1, sets
  \<open>*resolved\<close> to \<open>true\<close> and returns \<open>true\<close>; with the key \<open>checksum\<close> and provided the
  engine's \<open>JS_DefinePropertyById\<close> succeeds, it defines the accessor property
  \<open>checksum\<close> with the getter \<open>Crc::getChecksum\<close> and no setter, sets \<open>*resolved\<close> to
  \<open>true\<close> and returns \<open>true\<close>. Nothing else in the context changes. When the engine's
  call fails, \<open>resolve\<close> returns \<open>false\<close> with the engine's error pending, defines
  nothing and leaves \<open>*resolved\<close> as it was.
\<close>

theorem resolve_defines:
  assumes "lookup (objects cx) obj = Some (CrcObject None ps)"
  shows
    "(\<not> fails cx (DefineFunctionById (JSID_STRING ''update'')) \<longrightarrow>
        resolve cx obj (JSID_STRING ''update'') r =
          Some (True, True,
            cx\<lparr>objects := (objects cx)
              [obj := CrcObject None
                 (ps(JSID_STRING ''update'' \<mapsto>
                    FunctionProperty Crc_update 1 JSPROP_ENUMERATE))]\<rparr>)) \<and>
     (\<not> fails cx (DefinePropertyById (JSID_STRING ''checksum'')) \<longrightarrow>
        resolve cx obj (JSID_STRING ''checksum'') r =
          Some (True, True,
            cx\<lparr>objects := (objects cx)
              [obj := CrcObject None
                 (ps(JSID_STRING ''checksum'' \<mapsto>
                    AccessorProperty (Some Crc_getChecksum) None JSPROP_ENUMERATE))]\<rparr>)) \<and>
     (fails cx (DefineFunctionById (JSID_STRING ''update'')) \<longrightarrow>
        resolve cx obj (JSID_STRING ''update'') r =
          Some (False, r,
            cx\<lparr>pending := Some (EngineError (DefineFunctionById (JSID_STRING ''update'')))\<rparr>)) \<and>
     (fails cx (DefinePropertyById (JSID_STRING ''checksum'')) \<longrightarrow>
        resolve cx obj (JSID_STRING ''checksum'') r =
          Some (False, r,
            cx\<lparr>pending :=
              Some (EngineError (DefinePropertyById (JSID_STRING ''checksum'')))\<rparr>))"
  using assms
  by (simp add: resolve_def isPrototype_def getPriv_def JS_GetPrivate_def
      JS_FlatStringEqualsAscii_def JS_DefineFunctionById_def JS_DefinePropertyById_def
      define_property_def engine_failure_def)

theorem resolve_defines_witness:
  "lookup (objects cx_demo) 0 = Some (CrcObject None Map.empty) \<and>
   \<not> fails cx_demo (DefineFunctionById (JSID_STRING ''update'')) \<and>
   resolve cx_demo 0 (JSID_STRING ''update'') False =
     Some (True, True,
       cx_demo\<lparr>objects := (objects cx_demo)
         [0 := CrcObject None
            [JSID_STRING ''update'' \<mapsto> FunctionProperty Crc_update 1 JSPROP_ENUMERATE]]\<rparr>) \<and>
   \<not> fails cx_demo (DefinePropertyById (JSID_STRING ''checksum'')) \<and>
   resolve cx_demo 0 (JSID_STRING ''checksum'') False =
     Some (True, True,
       cx_demo\<lparr>objects := (objects cx_demo)
         [0 := CrcObject None
            [JSID_STRING ''checksum'' \<mapsto>
               AccessorProperty (Some Crc_getChecksum) None JSPROP_ENUMERATE]]\<rparr>) \<and>
   lookup (objects (cx_failing (DefinePropertyById (JSID_STRING ''checksum'')))) 0 =
     Some (CrcObject None Map.empty) \<and>
   fails (cx_failing (DefinePropertyById (JSID_STRING ''checksum'')))
     (DefinePropertyById (JSID_STRING ''checksum'')) \<and>
   resolve (cx_failing (DefinePropertyById (JSID_STRING ''checksum''))) 0
       (JSID_STRING ''checksum'') False =
     Some (False, False,
       (cx_failing (DefinePropertyById (JSID_STRING ''checksum'')))
         \<lparr>pending := Some (EngineError (DefinePropertyById (JSID_STRING ''checksum'')))\<rparr>) \<and>
   lookup (objects (cx_failing (DefineFunctionById (JSID_STRING ''update'')))) 0 =
     Some (CrcObject None Map.empty) \<and>
   fails (cx_failing (DefineFunctionById (JSID_STRING ''update'')))
     (DefineFunctionById (JSID_STRING ''update'')) \<and>
   resolve (cx_failing (DefineFunctionById (JSID_STRING ''update''))) 0
       (JSID_STRING ''update'') True =
     Some (False, True,
       (cx_failing (DefineFunctionById (JSID_STRING ''update'')))
         \<lparr>pending := Some (EngineError (DefineFunctionById (JSID_STRING ''update'')))\<rparr>)"
proof -
  note ok = resolve_defines [OF cx_demo_objects(1), of False]
  note f1 = resolve_defines
    [OF cx_failing_object [of "DefinePropertyById (JSID_STRING ''checksum'')"], of False]
  note f2 = resolve_defines
    [OF cx_failing_object [of "DefineFunctionById (JSID_STRING ''update'')"], of True]
  show ?thesis
    using ok f1 f2 cx_demo_objects(1) cx_failing_object
    by (simp add: cx_demo_no_failure cx_failing_fails)
qed

text \<open>
  The claim as stated has every such call define the member and report it resolved.
  Where the engine's \<open>JS_DefineFunctionById\<close> fails, \<open>resolve\<close> returns \<open>false\<close> (the
  source's \<open>if (!JS_DefineFunctionById(...)) return false\<close>): the prototype has no
  property \<open>update\<close> afterwards and \<open>*resolved\<close> still holds what it held, here \<open>false\<close>.
\<close>

theorem resolve_define_failure_counterexample:
  "getPriv (cx_failing (DefineFunctionById (JSID_STRING ''update''))) 0 = Some None \<and>
   resolve (cx_failing (DefineFunctionById (JSID_STRING ''update''))) 0
       (JSID_STRING ''update'') False =
     Some (False, False,
       (cx_failing (DefineFunctionById (JSID_STRING ''update'')))
         \<lparr>pending := Some (EngineError (DefineFunctionById (JSID_STRING ''update'')))\<rparr>) \<and>
   lookup
     (objects ((cx_failing (DefineFunctionById (JSID_STRING ''update'')))
        \<lparr>pending := Some (EngineError (DefineFunctionById (JSID_STRING ''update'')))\<rparr>)) 0 =
     Some (CrcObject None Map.empty)"
  using cx_failing_object [of "DefineFunctionById (JSID_STRING ''update'')"]
  by (simp add: resolve_def isPrototype_def getPriv_def JS_GetPrivate_def
      JS_FlatStringEqualsAscii_def JS_DefineFunctionById_def engine_failure_def
      cx_failing_fails)

subsection \<open>The enumeration hook\<close>

text \<open>
  Claim C8, as amended. On the prototype, and provided both appends to the engine's
  vector succeed, \<open>newEnumerate\<close> returns \<open>true\<close> having appended exactly the two names
  \<open>update\<close> and \<open>checksum\<close>, each once, and leaves the context unchanged, so that the
  names it reports do not depend on earlier calls or on how often it is called. When
  an append fails it returns \<open>false\<close> with the engine's error pending and the names
  appended before the failure. On an instance it returns \<open>true\<close> and appends nothing.
\<close>

theorem newEnumerate_names:
  "(getPriv cx obj = Some None \<and>
      \<not> fails cx (VectorAppend (JSID_STRING ''update'')) \<and>
      \<not> fails cx (VectorAppend (JSID_STRING ''checksum'')) \<longrightarrow>
      newEnumerate cx obj props e =
        Some (True, props @ [JSID_STRING ''update'', JSID_STRING ''checksum''], cx)) \<and>
   (getPriv cx obj = Some None \<and> fails cx (VectorAppend (JSID_STRING ''update'')) \<longrightarrow>
      newEnumerate cx obj props e =
        Some (False, props,
          cx\<lparr>pending := Some (EngineError (VectorAppend (JSID_STRING ''update'')))\<rparr>)) \<and>
   (getPriv cx obj = Some None \<and>
      \<not> fails cx (VectorAppend (JSID_STRING ''update'')) \<and>
      fails cx (VectorAppend (JSID_STRING ''checksum'')) \<longrightarrow>
      newEnumerate cx obj props e =
        Some (False, props @ [JSID_STRING ''update''],
          cx\<lparr>pending := Some (EngineError (VectorAppend (JSID_STRING ''checksum'')))\<rparr>)) \<and>
   (getPriv cx obj = Some (Some p) \<longrightarrow> newEnumerate cx obj props e = Some (True, props, cx))"
  by (simp add: newEnumerate_def isPrototype_def append_id_def INTERNED_STRING_TO_JSID_def
      engine_failure_def)

text \<open>
  At \<open>cx_demo\<close>: on the prototype with an empty vector, and with a vector that holds
  an integer key already; on the instance. With a failing first append.
\<close>

theorem newEnumerate_names_witness:
  "getPriv cx_demo 0 = Some None \<and>
   \<not> fails cx_demo (VectorAppend (JSID_STRING ''update'')) \<and>
   \<not> fails cx_demo (VectorAppend (JSID_STRING ''checksum'')) \<and>
   newEnumerate cx_demo 0 [] True =
     Some (True, [JSID_STRING ''update'', JSID_STRING ''checksum''], cx_demo) \<and>
   newEnumerate cx_demo 0 [JSID_INT 7] False =
     Some (True, [JSID_INT 7, JSID_STRING ''update'', JSID_STRING ''checksum''], cx_demo) \<and>
   getPriv cx_demo 1 = Some (Some 0) \<and>
   newEnumerate cx_demo 1 [] True = Some (True, [], cx_demo) \<and>
   getPriv (cx_failing (VectorAppend (JSID_STRING ''update''))) 0 = Some None \<and>
   fails (cx_failing (VectorAppend (JSID_STRING ''update'')))
     (VectorAppend (JSID_STRING ''update'')) \<and>
   newEnumerate (cx_failing (VectorAppend (JSID_STRING ''update''))) 0 [] True =
     Some (False, [],
       (cx_failing (VectorAppend (JSID_STRING ''update'')))
         \<lparr>pending := Some (EngineError (VectorAppend (JSID_STRING ''update'')))\<rparr>)"
proof -
  note a = newEnumerate_names [of cx_demo 0 "[]" True]
  note b = newEnumerate_names [of cx_demo 0 "[JSID_INT 7]" False]
  note c = newEnumerate_names [of cx_demo 1 "[]" True 0]
  note d = newEnumerate_names [of "cx_failing (VectorAppend (JSID_STRING ''update''))" 0 "[]" True]
  show ?thesis
    using a b c d cx_demo_prototype cx_demo_instance
    by (simp add: cx_demo_no_failure cx_failing_fails cx_failing_prototype)
qed

text \<open>
  The claim as stated has every call on the prototype report the two names. Where the
  append of \<open>checksum\<close> fails, the hook returns \<open>false\<close> (the source's
  \<open>if (!properties.append(idChecksum)) return false\<close>) with \<open>update\<close> alone in the
  vector.
\<close>

theorem newEnumerate_append_failure_counterexample:
  "getPriv (cx_failing (VectorAppend (JSID_STRING ''checksum''))) 0 = Some None \<and>
   newEnumerate (cx_failing (VectorAppend (JSID_STRING ''checksum''))) 0 [] True =
     Some (False, [JSID_STRING ''update''],
       (cx_failing (VectorAppend (JSID_STRING ''checksum'')))
         \<lparr>pending := Some (EngineError (VectorAppend (JSID_STRING ''checksum'')))\<rparr>)"
  by (simp add: newEnumerate_def isPrototype_def append_id_def INTERNED_STRING_TO_JSID_def
      engine_failure_def cx_failing_fails cx_failing_prototype)

subsection \<open>Finalization\<close>

text \<open>
  Claim C9. On an object of the class with nothing attached (the prototype, or an
  object finalized before), \<open>finalize\<close> returns the context unchanged. On an instance
  whose \<open>Crc\<close> is live it deletes that \<open>Crc\<close>, clears the private slot and changes
  nothing else; a second \<open>finalize\<close> on the object is then defined (it deletes nothing
  a second time) and returns the context unchanged.
\<close>

theorem finalize_once:
  "(getPriv cx obj = Some None \<longrightarrow> finalize cx obj = Some cx) \<and>
   (lookup (objects cx) obj = Some (CrcObject (Some p) ps) \<and>
      lookup (crcs cx) p = Some (Some c) \<longrightarrow>
      finalize cx obj =
        Some (cx\<lparr>crcs := (crcs cx)[p := None],
                 objects := (objects cx)[obj := CrcObject None ps]\<rparr>) \<and>
      lookup (crcs (cx\<lparr>crcs := (crcs cx)[p := None],
                 objects := (objects cx)[obj := CrcObject None ps]\<rparr>)) p = Some None \<and>
      getPriv (cx\<lparr>crcs := (crcs cx)[p := None],
                 objects := (objects cx)[obj := CrcObject None ps]\<rparr>) obj = Some None \<and>
      finalize (cx\<lparr>crcs := (crcs cx)[p := None],
                 objects := (objects cx)[obj := CrcObject None ps]\<rparr>) obj =
        Some (cx\<lparr>crcs := (crcs cx)[p := None],
                 objects := (objects cx)[obj := CrcObject None ps]\<rparr>))"
  by (auto simp: finalize_def getPriv_def JS_GetPrivate_def JS_SetPrivate_def delete_Crc_def
      lookup_def split: if_splits)

theorem finalize_once_witness:
  "getPriv cx_demo 0 = Some None \<and>
   finalize cx_demo 0 = Some cx_demo \<and>
   lookup (objects cx_demo) 1 = Some (CrcObject (Some 0) Map.empty) \<and>
   lookup (crcs cx_demo) 0 = Some (Some \<lparr>m_crc = 0\<rparr>) \<and>
   finalize cx_demo 1 =
     Some (cx_demo\<lparr>crcs := (crcs cx_demo)[0 := None],
              objects := (objects cx_demo)[1 := CrcObject None Map.empty]\<rparr>) \<and>
   finalize (cx_demo\<lparr>crcs := (crcs cx_demo)[0 := None],
              objects := (objects cx_demo)[1 := CrcObject None Map.empty]\<rparr>) 1 =
     Some (cx_demo\<lparr>crcs := (crcs cx_demo)[0 := None],
              objects := (objects cx_demo)[1 := CrcObject None Map.empty]\<rparr>)"
  using finalize_once [of cx_demo 0] finalize_once [of cx_demo 1 0 Map.empty "\<lparr>m_crc = 0\<rparr>"]
    cx_demo_prototype cx_demo_objects(2) cx_demo_crc
  by simp

subsection \<open>A failed update\<close>

text \<open>
  Claim C10. Whenever \<open>update\<close> returns \<open>false\<close>, the free store, and so the checksum of
  every instance, is as it was before the call, and so are the heap and the return
  slot: each error exit comes before the line that folds the bytes.
\<close>

theorem failed_update_atomic:
  assumes "update crc32 cx args = Some (False, a, cx1)"
  shows "crcs cx1 = crcs cx \<and> objects cx1 = objects cx \<and> a = args"
  using assms
  by (auto simp: update_def checkIsInstance_def isPrototype_def updateImpl_def
      requireAtLeast_def JS_ReportErrorASCII_def JS_ReportErrorNumberASCII_def
      split: option.splits if_splits bool.splits prod.splits)

text \<open>
  On the instance of \<open>cx_demo\<close>: a call with no argument and a call with an object that
  is no \<open>Uint8Array\<close>; the checksum of the instance stays at \<open>0\<close>.
\<close>

theorem failed_update_atomic_witness:
  "update crc32_reference cx_demo (method_call 1 []) =
     Some (False, method_call 1 [],
       cx_demo\<lparr>pending := Some (ErrorNumber (JSMSG_MORE_ARGS_NEEDED ''update'' 1))\<rparr>) \<and>
   update crc32_reference cx_demo (method_call 1 [ObjectValue 3]) =
     Some (False, method_call 1 [ObjectValue 3],
       cx_demo\<lparr>pending :=
         Some (ErrorASCII ''argument to update() should be a Uint8Array'')\<rparr>) \<and>
   crcs (cx_demo\<lparr>pending := Some (ErrorNumber (JSMSG_MORE_ARGS_NEEDED ''update'' 1))\<rparr>) =
     crcs cx_demo \<and>
   crcs (cx_demo\<lparr>pending :=
         Some (ErrorASCII ''argument to update() should be a Uint8Array'')\<rparr>) = crcs cx_demo \<and>
   lookup (crcs cx_demo) 0 = Some (Some \<lparr>m_crc = 0\<rparr>)"
proof -
  have inst: "getPriv cx_demo (thisobj (method_call 1 as)) = Some (Some 0)" for as
    using cx_demo_instance by (simp add: method_call_def)
  have r1: "update crc32_reference cx_demo (method_call 1 []) =
     Some (False, method_call 1 [],
       cx_demo\<lparr>pending := Some (ErrorNumber (JSMSG_MORE_ARGS_NEEDED ''update'' 1))\<rparr>)"
    by (rule update_no_argument [OF inst]) (simp add: method_call_def)
  have r2: "update crc32_reference cx_demo (method_call 1 [ObjectValue 3]) =
     Some (False, method_call 1 [ObjectValue 3],
       cx_demo\<lparr>pending :=
         Some (ErrorASCII ''argument to update() should be a Uint8Array'')\<rparr>)"
    by (rule update_not_Uint8Array [OF inst, where v = "ObjectValue 3" and vs = "[]"])
      (simp_all add: method_call_def cx_demo_arrays)
  from failed_update_atomic [OF r1] failed_update_atomic [OF r2] r1 r2 cx_demo_crc
  show ?thesis by simp
qed

subsection \<open>The remaining hooks\<close>

text \<open>
  \<open>mayResolve\<close> holds of the two names \<open>resolve\<close> defines and of no other key, and
  \<open>DefinePrototype\<close> makes an object that the hooks take for the prototype.
\<close>

lemma mayResolve_names:
  "mayResolve ident \<longleftrightarrow> ident = JSID_STRING ''update'' \<or> ident = JSID_STRING ''checksum''"
  by (cases ident) (simp_all add: mayResolve_def JS_FlatStringEqualsAscii_def)

lemma DefinePrototype_prototype:
  assumes "\<not> fails cx InitClass"
  shows "DefinePrototype cx =
           Some (True, cx\<lparr>objects := objects cx @ [CrcObject None Map.empty]\<rparr>) \<and>
         isPrototype (cx\<lparr>objects := objects cx @ [CrcObject None Map.empty]\<rparr>)
           (length (objects cx)) = Some True"
  using assms
  by (simp add: DefinePrototype_def JS_InitClass_def JS_SetPrivate_def isPrototype_def
      getPriv_def JS_GetPrivate_def lookup_def)

end
